theory Spec2Isabelle
  imports Main "HOL-Library.Word"
begin

unbundle bit_operations_syntax

section \<open>Process outcomes and the trace of observable calls\<close>

text \<open>
  The functions of \<^verbatim>\<open>vulkan_methods.c\<close> either return a value to their caller or
  end the process through \<^verbatim>\<open>hardExit\<close>. A run of a function is the list of the
  observable events it produced (log lines, native creation calls) together with its
  outcome.
\<close>

datatype severity = INFO | WARN | ERROR | FATAL | UNKNOWN

datatype 'a outcome = Returned 'a | Exited int

definition EXIT_FAILURE :: int where
  "EXIT_FAILURE = 1"

definition EXIT_SUCCESS :: int where
  "EXIT_SUCCESS = 0"

text \<open>\<^verbatim>\<open>void hardExit() { exit(EXIT_FAILURE); }\<close> (error_methods.c, line 28).\<close>

definition hardExit :: "'a outcome" where
  "hardExit = Exited EXIT_FAILURE"

section \<open>Constants and structures of the Vulkan headers used by the code\<close>

text \<open>
  Handles are opaque; \<^verbatim>\<open>VK_NULL_HANDLE\<close> is 0. \<^verbatim>\<open>VkResult\<close> is a signed
  enumeration whose only non-failure value tested by the code is \<^verbatim>\<open>VK_SUCCESS\<close>.
\<close>

type_synonym VkResult = int
type_synonym VkFlags = "32 word"
type_synonym VkBool32 = "32 word"
type_synonym VkPhysicalDevice = nat
type_synonym VkInstance = nat
type_synonym VkDevice = nat
type_synonym VkSurfaceKHR = nat
type_synonym VkSwapchainKHR = nat
type_synonym VkFormat = "32 word"
type_synonym VkColorSpaceKHR = "32 word"
type_synonym VkStructureType = "32 word"

definition VK_SUCCESS :: VkResult where
  "VK_SUCCESS = 0"

definition VK_NULL_HANDLE :: nat where
  "VK_NULL_HANDLE = 0"

definition VK_TRUE :: VkBool32 where
  "VK_TRUE = 1"

definition VK_QUEUE_GRAPHICS_BIT :: VkFlags where
  "VK_QUEUE_GRAPHICS_BIT = 1"

definition VK_QUEUE_COMPUTE_BIT :: VkFlags where
  "VK_QUEUE_COMPUTE_BIT = 2"

definition VK_QUEUE_TRANSFER_BIT :: VkFlags where
  "VK_QUEUE_TRANSFER_BIT = 4"

definition VK_STRUCTURE_TYPE_APPLICATION_INFO :: VkStructureType where
  "VK_STRUCTURE_TYPE_APPLICATION_INFO = 0"

definition VK_STRUCTURE_TYPE_INSTANCE_CREATE_INFO :: VkStructureType where
  "VK_STRUCTURE_TYPE_INSTANCE_CREATE_INFO = 1"

definition VK_STRUCTURE_TYPE_SWAPCHAIN_CREATE_INFO_KHR :: VkStructureType where
  "VK_STRUCTURE_TYPE_SWAPCHAIN_CREATE_INFO_KHR = 1000001000"

definition VK_FORMAT_R8G8B8A8_UNORM :: VkFormat where
  "VK_FORMAT_R8G8B8A8_UNORM = 37"

definition VK_FORMAT_B8G8R8A8_UNORM :: VkFormat where
  "VK_FORMAT_B8G8R8A8_UNORM = 44"

definition VK_COLOR_SPACE_SRGB_NONLINEAR_KHR :: VkColorSpaceKHR where
  "VK_COLOR_SPACE_SRGB_NONLINEAR_KHR = 0"

definition VK_IMAGE_USAGE_COLOR_ATTACHMENT_BIT :: VkFlags where
  "VK_IMAGE_USAGE_COLOR_ATTACHMENT_BIT = 16"

definition VK_COMPOSITE_ALPHA_OPAQUE_BIT_KHR :: VkFlags where
  "VK_COMPOSITE_ALPHA_OPAQUE_BIT_KHR = 1"

definition VK_MAKE_VERSION :: "32 word \<Rightarrow> 32 word \<Rightarrow> 32 word \<Rightarrow> 32 word" where
  "VK_MAKE_VERSION major minor patch = push_bit 22 major OR push_bit 12 minor OR patch"

definition VK_API_VERSION_1_0 :: "32 word" where
  "VK_API_VERSION_1_0 = VK_MAKE_VERSION 1 0 0"

datatype VkSharingMode = VK_SHARING_MODE_EXCLUSIVE | VK_SHARING_MODE_CONCURRENT

datatype VkPresentModeKHR =
    VK_PRESENT_MODE_IMMEDIATE_KHR
  | VK_PRESENT_MODE_MAILBOX_KHR
  | VK_PRESENT_MODE_FIFO_KHR
  | VK_PRESENT_MODE_FIFO_RELAXED_KHR

record VkQueueFamilyProperties =
  queueFlags :: VkFlags
  queueCount :: "32 word"
  timestampValidBits :: "32 word"
  minImageTransferGranularity :: "32 word \<times> 32 word \<times> 32 word"

record VkExtent2D =
  width :: "32 word"
  height :: "32 word"

record VkSurfaceCapabilitiesKHR =
  minImageCount :: "32 word"
  maxImageCount :: "32 word"
  currentExtent :: VkExtent2D
  minImageExtent :: VkExtent2D
  maxImageExtent :: VkExtent2D
  maxImageArrayLayers :: "32 word"
  supportedTransforms :: VkFlags
  currentTransform :: VkFlags
  supportedCompositeAlpha :: VkFlags
  supportedUsageFlags :: VkFlags

record VkSurfaceFormatKHR =
  format :: VkFormat
  colorSpace :: VkColorSpaceKHR

text \<open>
  A pointer to an array is the array, or \<open>None\<close> for \<^verbatim>\<open>NULL\<close>; \<^verbatim>\<open>pNext\<close> is
  never set by the code and stays the null pointer of the zero initialiser.
\<close>

record VkSwapchainCreateInfoKHR =
  sType :: VkStructureType
  pNext :: nat
  flags :: VkFlags
  surface :: VkSurfaceKHR
  minImageCount :: "32 word"
  imageFormat :: VkFormat
  imageColorSpace :: VkColorSpaceKHR
  imageExtent :: VkExtent2D
  imageArrayLayers :: "32 word"
  imageUsage :: VkFlags
  imageSharingMode :: VkSharingMode
  queueFamilyIndexCount :: "32 word"
  pQueueFamilyIndices :: "32 word list option"
  preTransform :: VkFlags
  compositeAlpha :: VkFlags
  presentMode :: VkPresentModeKHR
  clipped :: VkBool32
  oldSwapchain :: VkSwapchainKHR

record VkApplicationInfo =
  sType :: VkStructureType
  pNext :: nat
  pApplicationName :: string
  applicationVersion :: "32 word"
  pEngineName :: string
  engineVersion :: "32 word"
  apiVersion :: "32 word"

record VkInstanceCreateInfo =
  sType :: VkStructureType
  pNext :: nat
  flags :: VkFlags
  pApplicationInfo :: VkApplicationInfo
  enabledLayerCount :: "32 word"
  ppEnabledLayerNames :: "string list"
  enabledExtensionCount :: "32 word"
  ppEnabledExtensionNames :: "string list"

text \<open>
  The structures of \<^verbatim>\<open>vulkan_methods.h\<close>, which is not among the source files; their
  fields are the ones \<^verbatim>\<open>vulkan_methods.c\<close> reads and writes.
\<close>

record DeviceIndices =
  hasGraphics :: bool
  graphicsIndex :: "32 word"
  hasCompute :: bool
  computeIndex :: "32 word"
  hasPresent :: bool
  presentIndex :: "32 word"

record InstanceInfo =
  extensionCount :: "32 word"
  ppExtensionNames :: "string list"
  layerCount :: "32 word"
  ppLayerNames :: "string list"

section \<open>The environment: the Vulkan driver, the allocator, the missing helpers\<close>

text \<open>
  What the native calls answer is the environment of the program; each field is named
  after the call it answers. \<open>malloc e n\<close> says whether \<^verbatim>\<open>malloc\<close> of an array of
  \<open>n\<close> elements returns a non-null pointer. \<^verbatim>\<open>findMatchingStrings\<close>
  (util_methods.c) and \<^verbatim>\<open>APPNAME\<close> (constants.h) are not among the source files
  and are parameters too: the helper gets the available names and their count, the
  requested names and their count, and the value \<^verbatim>\<open>matchnum\<close> holds at the call,
  and answers the value \<^verbatim>\<open>matchnum\<close> holds after it.
\<close>

record env =
  vkEnumeratePhysicalDevices :: "VkInstance \<Rightarrow> VkResult \<times> VkPhysicalDevice list"
  vkGetPhysicalDeviceQueueFamilyProperties :: "VkPhysicalDevice \<Rightarrow> VkQueueFamilyProperties list"
  vkGetPhysicalDeviceSurfaceSupportKHR :: "VkPhysicalDevice \<Rightarrow> nat \<Rightarrow> VkSurfaceKHR \<Rightarrow> VkBool32"
  vkGetPhysicalDeviceSurfaceCapabilitiesKHR :: "VkPhysicalDevice \<Rightarrow> VkSurfaceKHR \<Rightarrow> VkSurfaceCapabilitiesKHR"
  vkGetPhysicalDeviceSurfaceFormatsKHR :: "VkPhysicalDevice \<Rightarrow> VkSurfaceKHR \<Rightarrow> VkSurfaceFormatKHR list"
  vkCreateInstance :: "VkInstanceCreateInfo \<Rightarrow> VkResult \<times> VkInstance"
  vkCreateSwapchainKHR :: "VkDevice \<Rightarrow> VkSwapchainCreateInfoKHR \<Rightarrow> VkResult \<times> VkSwapchainKHR"
  malloc :: "nat \<Rightarrow> bool"
  findMatchingStrings :: "string list \<Rightarrow> 32 word \<Rightarrow> string list \<Rightarrow> 32 word \<Rightarrow> 32 word \<Rightarrow> 32 word"
  APPNAME :: string

text \<open>
  Modelled from the spec: \<^verbatim>\<open>errLog\<close> (error_methods.h) is not among the source
  files. The specification names \<^verbatim>\<open>hardExit\<close> as the only error path and has fatal
  errors terminate "after logging", and every other call of it in the source is followed
  by \<^verbatim>\<open>hardExit\<close> or \<^verbatim>\<open>panic\<close>: a call of it is the event \<open>ErrLog\<close> and
  returns. \<open>PrintError\<close> is a call of \<^verbatim>\<open>printError\<close> (error_methods.c), which
  prints and returns. The native creation calls are events as well.
\<close>

datatype event =
    ErrLog severity string "32 word list"
  | PrintError
  | CreateInstanceCall VkInstanceCreateInfo
  | CreateSwapchainCall VkDevice VkSwapchainCreateInfoKHR

type_synonym 'a run = "event list \<times> 'a outcome"

section \<open>Capability probe: queue family queries\<close>

text \<open>The conversion of the \<^verbatim>\<open>uint32_t\<close> loop index to the \<^verbatim>\<open>int32_t\<close> return value.\<close>

definition to_int32 :: "nat \<Rightarrow> int" where
  "to_int32 i = sint (word_of_nat i :: 32 word)"

text \<open>
  The loop of \<^verbatim>\<open>getDeviceQueueIndex\<close> (vulkan_methods.c, lines 198 to 205). The
  flags it tests are those of \<^verbatim>\<open>arr[0]\<close>, as the source has it.
\<close>

function getDeviceQueueIndex_loop :: "VkQueueFamilyProperties list \<Rightarrow> VkFlags \<Rightarrow> nat \<Rightarrow> int" where
  "getDeviceQueueIndex_loop arr bitmask i =
     (if i < length arr then
        (if 0 < queueCount (arr ! i) \<and> queueFlags (arr ! 0) AND bitmask \<noteq> 0 then to_int32 i
         else getDeviceQueueIndex_loop arr bitmask (i + 1))
      else -1)"
  by pat_completeness auto
termination
  by (relation "measure (\<lambda>(arr, bitmask, i). length arr - i)") auto

declare getDeviceQueueIndex_loop.simps [simp del]

definition getDeviceQueueIndex :: "env \<Rightarrow> VkPhysicalDevice \<Rightarrow> VkFlags \<Rightarrow> int run" where
  "getDeviceQueueIndex e device bitmask =
     (let arr = vkGetPhysicalDeviceQueueFamilyProperties e device;
          queueFamilyCount = length arr
      in if \<not> malloc e queueFamilyCount then ([PrintError], hardExit)
         else ([], Returned (getDeviceQueueIndex_loop arr bitmask 0)))"




section \<open>Physical device selection\<close>

text \<open>
  The selection loop of \<^verbatim>\<open>createPhysicalDevice\<close> (lines 168 to 175) over the
  enumerated array, with the device selected so far. A \<^verbatim>\<open>hardExit\<close> inside the
  query ends the loop.
\<close>

fun createPhysicalDevice_loop :: "env \<Rightarrow> VkPhysicalDevice list \<Rightarrow> VkPhysicalDevice \<Rightarrow> VkPhysicalDevice run" where
  "createPhysicalDevice_loop e [] selectedDevice = ([], Returned selectedDevice)"
| "createPhysicalDevice_loop e (d # arr) selectedDevice =
     (case getDeviceQueueIndex e d (VK_QUEUE_GRAPHICS_BIT OR VK_QUEUE_COMPUTE_BIT) of
        (t, Exited c) \<Rightarrow> (t, Exited c)
      | (t, Returned ret) \<Rightarrow>
          (case createPhysicalDevice_loop e arr (if ret \<noteq> - 1 then d else selectedDevice) of
             (t', r) \<Rightarrow> (t @ t', r)))"

definition createPhysicalDevice :: "env \<Rightarrow> VkInstance \<Rightarrow> VkPhysicalDevice run" where
  "createPhysicalDevice e instance =
     (let res = fst (vkEnumeratePhysicalDevices e instance);
          arr = snd (vkEnumeratePhysicalDevices e instance);
          deviceCount = length arr
      in if res \<noteq> VK_SUCCESS \<or> deviceCount = 0
         then ([ErrLog FATAL ''no Vulkan capable device found'' []], hardExit)
         else if \<not> malloc e deviceCount then ([PrintError], hardExit)
         else (case createPhysicalDevice_loop e arr VK_NULL_HANDLE of
                 (t, Exited c) \<Rightarrow> (t, Exited c)
               | (t, Returned selectedDevice) \<Rightarrow>
                   if selectedDevice = VK_NULL_HANDLE
                   then (t @ [ErrLog ERROR ''no suitable Vulkan device found\<newline>'' []], hardExit)
                   else (t, Returned selectedDevice)))"

section \<open>Instance creation\<close>

text \<open>The structures \<^verbatim>\<open>createInstance\<close> fills in (lines 77 to 92).\<close>

definition createInstance_appInfo :: "env \<Rightarrow> VkApplicationInfo" where
  "createInstance_appInfo e =
     \<lparr>VkApplicationInfo.sType = VK_STRUCTURE_TYPE_APPLICATION_INFO,
      VkApplicationInfo.pNext = 0,
      pApplicationName = APPNAME e,
      applicationVersion = VK_MAKE_VERSION 1 0 0,
      pEngineName = ''None'',
      engineVersion = VK_MAKE_VERSION 1 0 0,
      apiVersion = VK_API_VERSION_1_0\<rparr>"

definition createInstance_createInfo ::
  "env \<Rightarrow> 32 word \<Rightarrow> string list \<Rightarrow> 32 word \<Rightarrow> string list \<Rightarrow> VkInstanceCreateInfo" where
  "createInstance_createInfo e enabledExtensionCount' ppEnabledExtensionNames'
       enabledLayerCount' ppEnabledLayerNames' =
     \<lparr>VkInstanceCreateInfo.sType = VK_STRUCTURE_TYPE_INSTANCE_CREATE_INFO,
      VkInstanceCreateInfo.pNext = 0,
      VkInstanceCreateInfo.flags = 0,
      pApplicationInfo = createInstance_appInfo e,
      enabledLayerCount = enabledLayerCount',
      ppEnabledLayerNames = ppEnabledLayerNames',
      enabledExtensionCount = enabledExtensionCount',
      ppEnabledExtensionNames = ppEnabledExtensionNames'\<rparr>"

definition createInstance ::
  "env \<Rightarrow> InstanceInfo \<Rightarrow> 32 word \<Rightarrow> string list \<Rightarrow> 32 word \<Rightarrow> string list \<Rightarrow> VkInstance run" where
  "createInstance e instanceInfo enabledExtensionCount' ppEnabledExtensionNames'
       enabledLayerCount' ppEnabledLayerNames' =
     (let matchnum = findMatchingStrings e (ppExtensionNames instanceInfo)
            (extensionCount instanceInfo) ppEnabledExtensionNames' enabledExtensionCount' 0
      in if matchnum \<noteq> enabledExtensionCount'
         then ([ErrLog FATAL ''failed to find required extension\<newline>'' []], hardExit)
         else
          (let matchnum2 = findMatchingStrings e (ppLayerNames instanceInfo)
                 (layerCount instanceInfo) ppEnabledLayerNames' enabledLayerCount' matchnum
           in if matchnum2 \<noteq> enabledLayerCount'
              then ([ErrLog FATAL ''failed to find required layer\<newline>'' []], hardExit)
              else
               (let createInfo = createInstance_createInfo e enabledExtensionCount'
                      ppEnabledExtensionNames' enabledLayerCount' ppEnabledLayerNames';
                    result = fst (vkCreateInstance e createInfo);
                    instance = snd (vkCreateInstance e createInfo)
                in if result \<noteq> VK_SUCCESS
                   then ([CreateInstanceCall createInfo,
                          ErrLog ERROR ''Failed to create instance, error code: %d''
                            [word_of_int result]], hardExit)
                   else ([CreateInstanceCall createInfo], Returned instance))))"

section \<open>Swap chain creation\<close>

text \<open>
  The creation structure \<^verbatim>\<open>createSwapChain\<close> fills in (lines 479 to 511), from the
  surface, the extent, the capabilities read at line 476 and the device indices. The
  fields the sharing-mode branch (lines 496 to 504) assigns start from the zero
  initialiser of line 479.
\<close>

definition createSwapChain_createInfo ::
  "VkSwapchainKHR \<Rightarrow> VkSurfaceKHR \<Rightarrow> VkExtent2D \<Rightarrow> VkSurfaceCapabilitiesKHR \<Rightarrow> DeviceIndices
     \<Rightarrow> VkSwapchainCreateInfoKHR" where
  "createSwapChain_createInfo oldSwapChain surface' extent capabilities deviceIndices =
     (let createInfo =
            \<lparr>VkSwapchainCreateInfoKHR.sType = VK_STRUCTURE_TYPE_SWAPCHAIN_CREATE_INFO_KHR,
             VkSwapchainCreateInfoKHR.pNext = 0,
             VkSwapchainCreateInfoKHR.flags = 0,
             surface = surface',
             VkSwapchainCreateInfoKHR.minImageCount = 2,
             imageFormat = VK_FORMAT_B8G8R8A8_UNORM,
             imageColorSpace = VK_COLOR_SPACE_SRGB_NONLINEAR_KHR,
             imageExtent = extent,
             imageArrayLayers = 1,
             imageUsage = VK_IMAGE_USAGE_COLOR_ATTACHMENT_BIT,
             imageSharingMode = VK_SHARING_MODE_EXCLUSIVE,
             queueFamilyIndexCount = 0,
             pQueueFamilyIndices = None,
             preTransform = currentTransform capabilities,
             compositeAlpha = VK_COMPOSITE_ALPHA_OPAQUE_BIT_KHR,
             presentMode = VK_PRESENT_MODE_FIFO_KHR,
             clipped = VK_TRUE,
             oldSwapchain = oldSwapChain\<rparr>;
          queueFamilyIndices = [graphicsIndex deviceIndices, presentIndex deviceIndices]
      in if graphicsIndex deviceIndices \<noteq> presentIndex deviceIndices
         then createInfo\<lparr>imageSharingMode := VK_SHARING_MODE_CONCURRENT,
                queueFamilyIndexCount := 2,
                pQueueFamilyIndices := Some queueFamilyIndices\<rparr>
         else createInfo\<lparr>imageSharingMode := VK_SHARING_MODE_EXCLUSIVE,
                queueFamilyIndexCount := 0,
                pQueueFamilyIndices := None\<rparr>)"

text \<open>
  \<^verbatim>\<open>createSwapChain\<close> (lines 467 to 521). The check of the device indices at line
  490 logs and goes on: no \<^verbatim>\<open>hardExit\<close> follows it in the source.
\<close>

definition createSwapChain ::
  "env \<Rightarrow> VkSwapchainKHR \<Rightarrow> VkDevice \<Rightarrow> VkPhysicalDevice \<Rightarrow> VkSurfaceKHR \<Rightarrow> VkExtent2D
     \<Rightarrow> DeviceIndices \<Rightarrow> VkSwapchainKHR run" where
  "createSwapChain e oldSwapChain device physicalDevice surface' extent deviceIndices =
     (let capabilities = vkGetPhysicalDeviceSurfaceCapabilitiesKHR e physicalDevice surface';
          invalid = (if \<not> hasGraphics deviceIndices \<or> \<not> hasPresent deviceIndices
                     then [ErrLog FATAL ''Invalid device to create swap chain\<newline>'' []]
                     else []);
          createInfo = createSwapChain_createInfo oldSwapChain surface' extent capabilities
                         deviceIndices;
          res = fst (vkCreateSwapchainKHR e device createInfo);
          swapChain = snd (vkCreateSwapchainKHR e device createInfo)
      in if res \<noteq> VK_SUCCESS
         then (invalid @ [CreateSwapchainCall device createInfo,
                 ErrLog ERROR ''Failed to create swap chain, error code: %d'' [word_of_int res]],
               hardExit)
         else (invalid @ [CreateSwapchainCall device createInfo], Returned swapChain))"

text \<open>The creation structures of the swap-chain creation calls in a trace, in order.\<close>

fun swapchainRequests :: "event list \<Rightarrow> VkSwapchainCreateInfoKHR list" where
  "swapchainRequests [] = []"
| "swapchainRequests (CreateSwapchainCall d ci # t) = ci # swapchainRequests t"
| "swapchainRequests (x # t) = swapchainRequests t"

section \<open>The program: \<^verbatim>\<open>main\<close>\<close>

text \<open>
  \<^verbatim>\<open>main\<close> (main.c) is a straight sequence of calls around one loop. The functions
  it calls (\<^verbatim>\<open>vulkan_helper.h\<close>, \<^verbatim>\<open>errors.h\<close>, GLFW) are not among the source
  files, so a run of \<^verbatim>\<open>main\<close> is the list of its calls, each with the name of the
  function and the arguments as the source writes them. What the run depends on: whether
  the allocation of line 37 succeeds, the three results of lines 70 to 75, and the answer
  of \<^verbatim>\<open>glfwWindowShouldClose\<close> at its k-th call.
\<close>

datatype call = Call string "string list"

record mainEnv =
  mallocExtensionNames :: bool
  ret1 :: "32 word"
  ret2 :: "32 word"
  ret3 :: "32 word"
  glfwWindowShouldClose :: "nat \<Rightarrow> bool"

text \<open>Lines 18 to 37.\<close>

definition main_init :: "call list" where
  "main_init =
     [Call ''glfwInit'' [],
      Call ''glfwGetRequiredInstanceExtensions'' [''&glfwExtensionCount''],
      Call ''malloc'' [''sizeof(char *) * extensionCount'']]"

text \<open>Lines 50 to 75.\<close>

definition main_instance :: "call list" where
  "main_instance =
     [Call ''new_Instance'' [''&instance'', ''extensionCount'', ''ppExtensionNames'',
        ''layerCount'', ''ppLayerNames''],
      Call ''new_DebugCallback'' [''&callback'', ''instance''],
      Call ''getPhysicalDevice'' [''&physicalDevice'', ''instance''],
      Call ''createGlfwWindow'' [],
      Call ''createSurface'' [''pWindow'', ''instance''],
      Call ''getDeviceQueueIndex'' [''&graphicsIndex'', ''physicalDevice'', ''VK_QUEUE_GRAPHICS_BIT''],
      Call ''getDeviceQueueIndex'' [''&computeIndex'', ''physicalDevice'', ''VK_QUEUE_COMPUTE_BIT''],
      Call ''getPresentQueueIndex'' [''&presentIndex'', ''physicalDevice'', ''surface'']]"

text \<open>Lines 86 to 167.\<close>

definition main_build :: "call list" where
  "main_build =
     [Call ''new_Device'' [''&device'', ''physicalDevice'', ''graphicsIndex'',
        ''deviceExtensionCount'', ''ppDeviceExtensionNames'', ''layerCount'', ''ppLayerNames''],
      Call ''getPreferredSurfaceFormat'' [''&surfaceFormat'', ''physicalDevice'', ''surface''],
      Call ''new_SwapChain'' [''&swapChain'', ''&swapChainImageCount'', ''VK_NULL_HANDLE'',
        ''surfaceFormat'', ''physicalDevice'', ''device'', ''surface'', ''swapChainExtent'',
        ''graphicsIndex'', ''presentIndex''],
      Call ''new_SwapChainImages'' [''&pSwapChainImages'', ''&swapChainImageCount'', ''device'',
        ''swapChain''],
      Call ''new_SwapChainImageViews'' [''&pSwapChainImageViews'', ''device'',
        ''surfaceFormat.format'', ''swapChainImageCount'', ''pSwapChainImages''],
      Call ''readShaderFile'' [''assets/shaders/shader.frag.spv'', ''&fragShaderFileLength'',
        ''&fragShaderFileContents''],
      Call ''new_ShaderModule'' [''&fragShaderModule'', ''device'', ''fragShaderFileLength'',
        ''fragShaderFileContents''],
      Call ''free'' [''fragShaderFileContents''],
      Call ''readShaderFile'' [''assets/shaders/shader.vert.spv'', ''&vertShaderFileLength'',
        ''&vertShaderFileContents''],
      Call ''new_ShaderModule'' [''&vertShaderModule'', ''device'', ''vertShaderFileLength'',
        ''vertShaderFileContents''],
      Call ''free'' [''vertShaderFileContents''],
      Call ''new_RenderPass'' [''&renderPass'', ''device'', ''surfaceFormat.format''],
      Call ''new_PipelineLayout'' [''&graphicsPipelineLayout'', ''device''],
      Call ''new_GraphicsPipeline'' [''&graphicsPipeline'', ''device'', ''vertShaderModule'',
        ''fragShaderModule'', ''swapChainExtent'', ''renderPass'', ''graphicsPipelineLayout''],
      Call ''delete_ShaderModule'' [''&fragShaderModule'', ''device''],
      Call ''delete_ShaderModule'' [''&vertShaderModule'', ''device''],
      Call ''new_SwapChainFramebuffers'' [''&pSwapChainFramebuffers'', ''device'', ''renderPass'',
        ''swapChainExtent'', ''swapChainImageCount'', ''pSwapChainImageViews''],
      Call ''new_CommandPool'' [''&commandPool'', ''device'', ''graphicsIndex''],
      Call ''new_GraphicsCommandBuffers'' [''&pGraphicsCommandBuffers'', ''device'', ''renderPass'',
        ''graphicsPipeline'', ''commandPool'', ''swapChainExtent'', ''swapChainImageCount'',
        ''pSwapChainFramebuffers''],
      Call ''create_Semaphore'' [''&imageAvailableSemaphore'', ''device''],
      Call ''create_Semaphore'' [''&renderFinishedSemaphore'', ''device'']]"

text \<open>
  The loop of lines 170 to 172, \<^verbatim>\<open>while (!glfwWindowShouldClose(pWindow)) {
  glfwPollEvents(); }\<close>, from the k-th call of \<^verbatim>\<open>glfwWindowShouldClose\<close> on. The loop
  runs for as long as the window stays open; \<open>None\<close> says that it has not ended within
  the given number of tests of its condition.
\<close>

fun main_loop :: "nat \<Rightarrow> (nat \<Rightarrow> bool) \<Rightarrow> nat \<Rightarrow> call list option" where
  "main_loop 0 shouldClose k = None"
| "main_loop (Suc fuel) shouldClose k =
     (if \<not> shouldClose k
      then map_option
             (\<lambda>t. Call ''glfwWindowShouldClose'' [''pWindow''] # Call ''glfwPollEvents'' [] # t)
             (main_loop fuel shouldClose (Suc k))
      else Some [Call ''glfwWindowShouldClose'' [''pWindow'']])"

text \<open>The calls of one iteration of the loop: the test of its condition, then its body.\<close>

definition main_loop_iteration :: "call list" where
  "main_loop_iteration = [Call ''glfwWindowShouldClose'' [''pWindow''], Call ''glfwPollEvents'' []]"

text \<open>Lines 175 to 193.\<close>

definition main_cleanup :: "call list" where
  "main_cleanup =
     [Call ''delete_Semaphore'' [''&renderFinishedSemaphore'', ''device''],
      Call ''delete_Semaphore'' [''&imageAvailableSemaphore'', ''device''],
      Call ''delete_GraphicsCommandBuffers'' [''&pGraphicsCommandBuffers''],
      Call ''delete_CommandPool'' [''&commandPool'', ''device''],
      Call ''delete_SwapChainFramebuffers'' [''&pSwapChainFramebuffers'', ''swapChainImageCount'',
        ''device''],
      Call ''delete_Pipeline'' [''&graphicsPipeline'', ''device''],
      Call ''delete_PipelineLayout'' [''&graphicsPipelineLayout'', ''device''],
      Call ''delete_RenderPass'' [''&renderPass'', ''device''],
      Call ''delete_SwapChainImageViews'' [''&pSwapChainImageViews'', ''swapChainImageCount'',
        ''device''],
      Call ''delete_SwapChainImages'' [''&pSwapChainImages''],
      Call ''delete_SwapChain'' [''&swapChain'', ''device''],
      Call ''delete_Device'' [''&device''],
      Call ''delete_DebugCallback'' [''&callback'', ''instance''],
      Call ''delete_Instance'' [''&instance''],
      Call ''free'' [''ppExtensionNames''],
      Call ''glfwTerminate'' []]"

text \<open>
  \<^verbatim>\<open>main\<close>. \<^verbatim>\<open>panic\<close> (errors.h) is not among the source files; by its name and
  its use it ends the process.
\<close>

definition main :: "nat \<Rightarrow> mainEnv \<Rightarrow> (call list \<times> int outcome) option" where
  "main fuel env =
     (if \<not> mallocExtensionNames env
      then Some (main_init @
                 [Call ''errLog'' [''FATAL'', ''failed to allocate memory: %s'', ''strerror(errno)''],
                  Call ''panic'' []],
                 Exited EXIT_FAILURE)
      else if ret1 env \<noteq> word_of_int VK_SUCCESS \<or> ret2 env \<noteq> word_of_int VK_SUCCESS
                \<or> ret3 env \<noteq> word_of_int VK_SUCCESS
      then Some (main_init @ main_instance @
                 [Call ''errLog'' [''FATAL'', ''unable to acquire indices\<newline>''],
                  Call ''panic'' []],
                 Exited EXIT_FAILURE)
      else (case main_loop fuel (glfwWindowShouldClose env) 0 of
              None \<Rightarrow> None
            | Some t \<Rightarrow>
                Some (main_init @ main_instance @ main_build @ t @ main_cleanup,
                      Returned EXIT_SUCCESS)))"

text \<open>The names of the functions called, and how often a function is called in a run.\<close>

fun call_name :: "call \<Rightarrow> string" where
  "call_name (Call f args) = f"

definition calls_of :: "string \<Rightarrow> call list \<Rightarrow> nat" where
  "calls_of f t = count_list (map call_name t) f"

definition calls_in_run :: "string \<Rightarrow> (call list \<times> int outcome) option \<Rightarrow> nat option" where
  "calls_in_run f r = (case r of None \<Rightarrow> None | Some (t, x) \<Rightarrow> Some (calls_of f t))"

text \<open>The position of the first call of a function in a list of calls, if it is called.\<close>

fun first_call :: "string \<Rightarrow> call list \<Rightarrow> nat option" where
  "first_call f [] = None"
| "first_call f (c # t) =
     (if call_name c = f then Some 0 else map_option Suc (first_call f t))"

section \<open>What the specification words\<close>

text \<open>
  The selection the specification words: the first family, in enumeration order, that
  has a nonzero queue count and whose own flags meet the bitmask.
\<close>

fun spec_findQueueFamily :: "VkQueueFamilyProperties list \<Rightarrow> VkFlags \<Rightarrow> nat \<Rightarrow> nat option" where
  "spec_findQueueFamily [] bitmask i = None"
| "spec_findQueueFamily (f # fs) bitmask i =
     (if 0 < queueCount f \<and> queueFlags f AND bitmask \<noteq> 0 then Some i
      else spec_findQueueFamily fs bitmask (Suc i))"

text \<open>
  The image count the specification words: the capabilities-reported minimum plus one,
  clamped to the capabilities-reported maximum.
\<close>

definition spec_imageCount :: "VkSurfaceCapabilitiesKHR \<Rightarrow> 32 word" where
  "spec_imageCount c =
     min (VkSurfaceCapabilitiesKHR.minImageCount c + 1) (maxImageCount c)"

text \<open>
  The format the specification words: the first supported format that is the preferred
  pair if there is one, else the first supported format.
\<close>

definition spec_chooseSurfaceFormat ::
  "VkSurfaceFormatKHR \<Rightarrow> VkSurfaceFormatKHR list \<Rightarrow> VkSurfaceFormatKHR option" where
  "spec_chooseSurfaceFormat preferred supported =
     (case find (\<lambda>f. f = preferred) supported of
        Some f \<Rightarrow> Some f
      | None \<Rightarrow> (case supported of [] \<Rightarrow> None | f # fs \<Rightarrow> Some f))"

text \<open>
  The devices the selection is worded over: those with a queue family that supports
  graphics and compute.
\<close>

definition spec_supportsGraphicsCompute :: "VkQueueFamilyProperties list \<Rightarrow> bool" where
  "spec_supportsGraphicsCompute fams =
     list_ex (\<lambda>f. queueFlags f AND VK_QUEUE_GRAPHICS_BIT \<noteq> 0
                 \<and> queueFlags f AND VK_QUEUE_COMPUTE_BIT \<noteq> 0) fams"

definition spec_suitableDevices :: "env \<Rightarrow> VkInstance \<Rightarrow> VkPhysicalDevice list" where
  "spec_suitableDevices e instance =
     filter (\<lambda>d. spec_supportsGraphicsCompute (vkGetPhysicalDeviceQueueFamilyProperties e d))
       (snd (vkEnumeratePhysicalDevices e instance))"

section \<open>Views of the code's results used in the statements\<close>

text \<open>The (format, colour space) pair a creation structure requests.\<close>

definition requestedFormat :: "VkSwapchainCreateInfoKHR \<Rightarrow> VkSurfaceFormatKHR" where
  "requestedFormat ci = \<lparr>format = imageFormat ci, colorSpace = imageColorSpace ci\<rparr>"

text \<open>
  The devices for which the query of line 170 answers an index, that is, returns and
  returns something other than -1, in enumeration order.
\<close>

definition queryFinds :: "env \<Rightarrow> VkPhysicalDevice \<Rightarrow> bool" where
  "queryFinds e d =
     (case snd (getDeviceQueueIndex e d (VK_QUEUE_GRAPHICS_BIT OR VK_QUEUE_COMPUTE_BIT)) of
        Returned ret \<Rightarrow> ret \<noteq> - 1
      | Exited c \<Rightarrow> False)"

definition suitableDevices :: "env \<Rightarrow> VkInstance \<Rightarrow> VkPhysicalDevice list" where
  "suitableDevices e instance = filter (queryFinds e) (snd (vkEnumeratePhysicalDevices e instance))"

section \<open>Concrete environments\<close>

definition family :: "VkFlags \<Rightarrow> 32 word \<Rightarrow> VkQueueFamilyProperties" where
  "family fl n = \<lparr>queueFlags = fl, queueCount = n, timestampValidBits = 0,
     minImageTransferGranularity = (1, 1, 1)\<rparr>"

definition extent0 :: VkExtent2D where
  "extent0 = \<lparr>width = 800, height = 600\<rparr>"

definition caps :: "32 word \<Rightarrow> 32 word \<Rightarrow> VkSurfaceCapabilitiesKHR" where
  "caps lo hi = \<lparr>VkSurfaceCapabilitiesKHR.minImageCount = lo, maxImageCount = hi,
     currentExtent = extent0, minImageExtent = extent0, maxImageExtent = extent0,
     maxImageArrayLayers = 1, supportedTransforms = 1, currentTransform = 1,
     supportedCompositeAlpha = 1, supportedUsageFlags = 16\<rparr>"

definition indices :: "bool \<Rightarrow> 32 word \<Rightarrow> bool \<Rightarrow> 32 word \<Rightarrow> DeviceIndices" where
  "indices hg g hp p = \<lparr>hasGraphics = hg, graphicsIndex = g, hasCompute = False,
     computeIndex = 0, hasPresent = hp, presentIndex = p\<rparr>"

definition noInstanceInfo :: InstanceInfo where
  "noInstanceInfo = \<lparr>extensionCount = 0, ppExtensionNames = [], layerCount = 0, ppLayerNames = []\<rparr>"

text \<open>
  An environment in which every allocation and every native call succeeds: one device
  (handle 1) with the given queue families, no family presenting to any surface,
  capabilities of 3 to 8 images, and R8G8B8A8 as the only surface format.
\<close>

definition env_of :: "VkQueueFamilyProperties list \<Rightarrow> env" where
  "env_of fams =
     \<lparr>vkEnumeratePhysicalDevices = (\<lambda>i. (VK_SUCCESS, [1])),
      vkGetPhysicalDeviceQueueFamilyProperties = (\<lambda>d. fams),
      vkGetPhysicalDeviceSurfaceSupportKHR = (\<lambda>d i s. 0),
      vkGetPhysicalDeviceSurfaceCapabilitiesKHR = (\<lambda>d s. caps 3 8),
      vkGetPhysicalDeviceSurfaceFormatsKHR =
        (\<lambda>d s. [\<lparr>format = VK_FORMAT_R8G8B8A8_UNORM, colorSpace = VK_COLOR_SPACE_SRGB_NONLINEAR_KHR\<rparr>]),
      vkCreateInstance = (\<lambda>ci. (VK_SUCCESS, 7)),
      vkCreateSwapchainKHR = (\<lambda>d ci. (VK_SUCCESS, 9)),
      malloc = (\<lambda>n. True),
      findMatchingStrings = (\<lambda>avail n req m k. m),
      APPNAME = ''vulkan-triangle-v1''\<rparr>"

definition env_compute_first :: env where
  "env_compute_first = env_of [family VK_QUEUE_COMPUTE_BIT 1, family VK_QUEUE_GRAPHICS_BIT 1]"

text \<open>The same, with both native creation calls failing (\<^verbatim>\<open>VK_ERROR_INITIALIZATION_FAILED\<close>).\<close>

definition env_failing :: env where
  "env_failing = (env_of [])\<lparr>vkCreateInstance := (\<lambda>ci. (- 3, 0)),
     vkCreateSwapchainKHR := (\<lambda>d ci. (- 3, 0))\<rparr>"

text \<open>
  Two devices, handles 1 and 2. Device 1 has one family, for graphics, compute and
  transfer; device 2 has a transfer-only family 0 and a graphics and compute family 1.
\<close>

definition families_two_devices :: "VkPhysicalDevice \<Rightarrow> VkQueueFamilyProperties list" where
  "families_two_devices d =
     (if d = 1 then [family 7 1] else [family VK_QUEUE_TRANSFER_BIT 1, family 3 1])"

definition env_two_devices :: env where
  "env_two_devices = (env_of [])\<lparr>vkEnumeratePhysicalDevices := (\<lambda>i. (VK_SUCCESS, [1, 2])),
     vkGetPhysicalDeviceQueueFamilyProperties := families_two_devices\<rparr>"

text \<open>Two devices, each with a single family for graphics, compute and transfer.\<close>

definition env_two_alike :: env where
  "env_two_alike = (env_of [family 7 1])\<lparr>vkEnumeratePhysicalDevices := (\<lambda>i. (VK_SUCCESS, [1, 2]))\<rparr>"

text \<open>A window that reports that it should close from the n-th test on.\<close>

definition closes_after :: "nat \<Rightarrow> nat \<Rightarrow> bool" where
  "closes_after n k = (n \<le> k)"

definition mainEnv_closes_after :: "nat \<Rightarrow> mainEnv" where
  "mainEnv_closes_after n = \<lparr>mallocExtensionNames = True, ret1 = 0, ret2 = 0, ret3 = 0,
     glfwWindowShouldClose = closes_after n\<rparr>"

section \<open>Theorems\<close>


text \<open>
  C2. The claim: getDeviceQueueIndex returns the index of the first queue family with a
  nonzero queue count whose own flags satisfy the bitmask. On a device whose family 0 is
  compute-only and whose family 1 is graphics-only, the query for the graphics bit tests
  the flags of family 0 at every index and returns -1, where the first family that
  satisfies the bitmask is family 1.
\<close>

theorem getDeviceQueueIndex_tests_family_zero:
  "getDeviceQueueIndex env_compute_first 1 VK_QUEUE_GRAPHICS_BIT = ([], Returned (- 1))
   \<and> spec_findQueueFamily (vkGetPhysicalDeviceQueueFamilyProperties env_compute_first 1)
         VK_QUEUE_GRAPHICS_BIT 0 = Some 1"
  by (simp add: getDeviceQueueIndex_def env_compute_first_def env_of_def family_def
      getDeviceQueueIndex_loop.simps VK_QUEUE_GRAPHICS_BIT_def VK_QUEUE_COMPUTE_BIT_def)

text \<open>Swap-chain construction issues exactly one creation call, with the structure built.\<close>

lemma createSwapChain_requests:
  "swapchainRequests (fst (createSwapChain e oldSwapChain device physicalDevice surface' extent deviceIndices))
   = [createSwapChain_createInfo oldSwapChain surface' extent
        (vkGetPhysicalDeviceSurfaceCapabilitiesKHR e physicalDevice surface') deviceIndices]"
  by (simp add: createSwapChain_def Let_def)

text \<open>
  C1. For every pair of device indices passed to swap-chain construction, the one creation
  call it issues requests concurrent sharing with exactly the graphics and the present
  family index listed when the two differ, and exclusive sharing with no family index
  listed (count 0, null pointer) when they are equal.
\<close>

theorem createSwapChain_sharing_mode:
  "(let requests = swapchainRequests
       (fst (createSwapChain e oldSwapChain device physicalDevice surface' extent deviceIndices))
    in length requests = 1
       \<and> (graphicsIndex deviceIndices \<noteq> presentIndex deviceIndices \<longrightarrow>
            map imageSharingMode requests = [VK_SHARING_MODE_CONCURRENT]
            \<and> map queueFamilyIndexCount requests = [2]
            \<and> map pQueueFamilyIndices requests
                = [Some [graphicsIndex deviceIndices, presentIndex deviceIndices]])
       \<and> (graphicsIndex deviceIndices = presentIndex deviceIndices \<longrightarrow>
            map imageSharingMode requests = [VK_SHARING_MODE_EXCLUSIVE]
            \<and> map queueFamilyIndexCount requests = [0]
            \<and> map pQueueFamilyIndices requests = [None]))"
  by (simp add: createSwapChain_requests createSwapChain_createInfo_def Let_def)

text \<open>The sharing mode at the indices (0, 1) and at the indices (2, 2).\<close>

theorem createSwapChain_sharing_mode_witness:
  "map imageSharingMode (swapchainRequests
      (fst (createSwapChain (env_of []) 0 5 1 3 extent0 (indices True 0 True 1))))
     = [VK_SHARING_MODE_CONCURRENT]
   \<and> map pQueueFamilyIndices (swapchainRequests
      (fst (createSwapChain (env_of []) 0 5 1 3 extent0 (indices True 0 True 1))))
     = [Some [0, 1]]
   \<and> map imageSharingMode (swapchainRequests
      (fst (createSwapChain (env_of []) 0 5 1 3 extent0 (indices True 2 True 2))))
     = [VK_SHARING_MODE_EXCLUSIVE]
   \<and> map pQueueFamilyIndices (swapchainRequests
      (fst (createSwapChain (env_of []) 0 5 1 3 extent0 (indices True 2 True 2))))
     = [None]"
  using createSwapChain_sharing_mode [of "env_of []" 0 5 1 3 extent0 "indices True 0 True 1"]
    createSwapChain_sharing_mode [of "env_of []" 0 5 1 3 extent0 "indices True 2 True 2"]
  by (simp add: indices_def Let_def)

text \<open>
  C3. The claim: the requested image count is the capabilities-reported minimum plus one,
  clamped to the maximum, hence within the reported range. On a surface whose
  capabilities report 3 to 8 images the claim asks for 4; the creation call requests 2,
  below the reported minimum.
\<close>

theorem createSwapChain_image_count_counterexample:
  "vkGetPhysicalDeviceSurfaceCapabilitiesKHR (env_of []) 1 3 = caps 3 8
   \<and> spec_imageCount (caps 3 8) = 4
   \<and> map VkSwapchainCreateInfoKHR.minImageCount (swapchainRequests
        (fst (createSwapChain (env_of []) 0 5 1 3 extent0 (indices True 0 True 0)))) = [2]
   \<and> \<not> VkSurfaceCapabilitiesKHR.minImageCount (caps 3 8) \<le> 2"
  by (simp add: createSwapChain_requests createSwapChain_createInfo_def Let_def env_of_def
      caps_def spec_imageCount_def)

text \<open>
  C3, as amended: for every environment, surface, extent and pair of device indices, the
  creation call of swap-chain construction requests a minimum image count of 2, whatever
  the capabilities report.
\<close>

theorem createSwapChain_image_count_fixed:
  "map VkSwapchainCreateInfoKHR.minImageCount (swapchainRequests
     (fst (createSwapChain e oldSwapChain device physicalDevice surface' extent deviceIndices)))
   = [2]"
  by (simp add: createSwapChain_requests createSwapChain_createInfo_def Let_def)

text \<open>The image count requested where the capabilities report a minimum of 3.\<close>

theorem createSwapChain_image_count_fixed_witness:
  "map VkSwapchainCreateInfoKHR.minImageCount (swapchainRequests
     (fst (createSwapChain (env_of []) 0 5 1 3 extent0 (indices True 0 True 1)))) = [2]
   \<and> VkSurfaceCapabilitiesKHR.minImageCount
       (vkGetPhysicalDeviceSurfaceCapabilitiesKHR (env_of []) 1 3) = 3"
  using createSwapChain_image_count_fixed [of "env_of []" 0 5 1 3 extent0 "indices True 0 True 1"]
  by (simp add: env_of_def caps_def)

text \<open>
  C4. The claim: with device indices that lack a resolved graphics or present family,
  swap-chain construction terminates the process and issues no creation call. With
  neither family resolved and a driver that accepts the call, the code logs the fatal
  message, issues the creation call with the unresolved indices and returns the swap
  chain to its caller.
\<close>

theorem createSwapChain_invalid_indices_goes_on:
  "createSwapChain (env_of []) 0 5 1 3 extent0 (indices False 0 False 0)
   = ([ErrLog FATAL ''Invalid device to create swap chain\<newline>'' [],
       CreateSwapchainCall 5
         (createSwapChain_createInfo 0 3 extent0 (caps 3 8) (indices False 0 False 0))],
      Returned 9)"
  by (simp add: createSwapChain_def Let_def env_of_def indices_def VK_SUCCESS_def)

text \<open>The outcome and the number of creation calls of that run.\<close>

theorem createSwapChain_invalid_indices_goes_on_witness:
  "snd (createSwapChain (env_of []) 0 5 1 3 extent0 (indices False 0 False 0)) = Returned 9
   \<and> length (swapchainRequests
        (fst (createSwapChain (env_of []) 0 5 1 3 extent0 (indices False 0 False 0)))) = 1"
  using createSwapChain_invalid_indices_goes_on by simp

text \<open>
  C5. Whenever the native creation call answers a result other than \<^verbatim>\<open>VK_SUCCESS\<close>,
  the constructor ends the process with \<^verbatim>\<open>EXIT_FAILURE\<close> and returns nothing to
  its caller. For the instance, the trace is the creation call followed by the logged
  error, unless one of the two checks before the call has already logged its fatal
  message and ended the process; for the swap chain, the last event is the logged error
  with the result code.
\<close>

theorem native_creation_failure_is_fatal:
  "(fst (vkCreateInstance e (createInstance_createInfo e enabledExtensionCount'
           ppEnabledExtensionNames' enabledLayerCount' ppEnabledLayerNames')) \<noteq> VK_SUCCESS \<longrightarrow>
      snd (createInstance e instanceInfo enabledExtensionCount' ppEnabledExtensionNames'
             enabledLayerCount' ppEnabledLayerNames') = Exited EXIT_FAILURE
      \<and> (fst (createInstance e instanceInfo enabledExtensionCount' ppEnabledExtensionNames'
                enabledLayerCount' ppEnabledLayerNames')
           = [ErrLog FATAL ''failed to find required extension\<newline>'' []]
         \<or> fst (createInstance e instanceInfo enabledExtensionCount' ppEnabledExtensionNames'
                enabledLayerCount' ppEnabledLayerNames')
           = [ErrLog FATAL ''failed to find required layer\<newline>'' []]
         \<or> fst (createInstance e instanceInfo enabledExtensionCount' ppEnabledExtensionNames'
                enabledLayerCount' ppEnabledLayerNames')
           = [CreateInstanceCall (createInstance_createInfo e enabledExtensionCount'
                 ppEnabledExtensionNames' enabledLayerCount' ppEnabledLayerNames'),
              ErrLog ERROR ''Failed to create instance, error code: %d''
                [word_of_int (fst (vkCreateInstance e (createInstance_createInfo e
                   enabledExtensionCount' ppEnabledExtensionNames' enabledLayerCount'
                   ppEnabledLayerNames')))]]))
   \<and> (fst (vkCreateSwapchainKHR e device (createSwapChain_createInfo oldSwapChain surface' extent
           (vkGetPhysicalDeviceSurfaceCapabilitiesKHR e physicalDevice surface') deviceIndices))
        \<noteq> VK_SUCCESS \<longrightarrow>
      snd (createSwapChain e oldSwapChain device physicalDevice surface' extent deviceIndices)
        = Exited EXIT_FAILURE
      \<and> last (fst (createSwapChain e oldSwapChain device physicalDevice surface' extent
                 deviceIndices))
        = ErrLog ERROR ''Failed to create swap chain, error code: %d''
            [word_of_int (fst (vkCreateSwapchainKHR e device (createSwapChain_createInfo
               oldSwapChain surface' extent
               (vkGetPhysicalDeviceSurfaceCapabilitiesKHR e physicalDevice surface')
               deviceIndices)))])"
  by (simp add: createInstance_def createSwapChain_def Let_def hardExit_def)

text \<open>Both constructors on a driver whose creation calls answer -3.\<close>

theorem native_creation_failure_is_fatal_witness:
  "createInstance env_failing noInstanceInfo 0 [] 0 []
     = ([CreateInstanceCall (createInstance_createInfo env_failing 0 [] 0 []),
         ErrLog ERROR ''Failed to create instance, error code: %d'' [4294967293]],
        Exited 1)
   \<and> snd (createSwapChain env_failing 0 5 1 3 extent0 (indices True 0 True 1)) = Exited 1
   \<and> last (fst (createSwapChain env_failing 0 5 1 3 extent0 (indices True 0 True 1)))
       = ErrLog ERROR ''Failed to create swap chain, error code: %d'' [4294967293]"
  using native_creation_failure_is_fatal [of env_failing 0 "[]" 0 "[]" noInstanceInfo
      5 0 3 extent0 1 "indices True 0 True 1"]
  by (simp add: env_failing_def env_of_def VK_SUCCESS_def EXIT_FAILURE_def prod_eq_iff
      createInstance_def Let_def hardExit_def)

text \<open>
  C6. The claim: the (format, colour space) pair is the first supported format matching
  a preferred pair, else the first supported format, so it depends on the reported
  formats. On a device that reports R8G8B8A8 as its only format the claim's choice is
  that format (with B8G8R8A8 preferred, the fallback); the creation call requests
  B8G8R8A8.
\<close>

theorem createSwapChain_format_counterexample:
  "spec_chooseSurfaceFormat
      \<lparr>format = VK_FORMAT_B8G8R8A8_UNORM, colorSpace = VK_COLOR_SPACE_SRGB_NONLINEAR_KHR\<rparr>
      (vkGetPhysicalDeviceSurfaceFormatsKHR (env_of []) 1 3)
     = Some \<lparr>format = VK_FORMAT_R8G8B8A8_UNORM, colorSpace = VK_COLOR_SPACE_SRGB_NONLINEAR_KHR\<rparr>
   \<and> map requestedFormat (swapchainRequests
        (fst (createSwapChain (env_of []) 0 5 1 3 extent0 (indices True 0 True 0))))
     = [\<lparr>format = VK_FORMAT_B8G8R8A8_UNORM, colorSpace = VK_COLOR_SPACE_SRGB_NONLINEAR_KHR\<rparr>]
   \<and> VK_FORMAT_B8G8R8A8_UNORM \<noteq> VK_FORMAT_R8G8B8A8_UNORM"
  by (simp add: createSwapChain_requests createSwapChain_createInfo_def Let_def env_of_def
      spec_chooseSurfaceFormat_def requestedFormat_def VK_FORMAT_B8G8R8A8_UNORM_def
      VK_FORMAT_R8G8B8A8_UNORM_def)

text \<open>
  C6, as amended: for every environment and every input, the creation call of swap-chain
  construction requests the fixed pair \<^verbatim>\<open>VK_FORMAT_B8G8R8A8_UNORM\<close>,
  \<^verbatim>\<open>VK_COLOR_SPACE_SRGB_NONLINEAR_KHR\<close>; the formats the device reports are not
  consulted.
\<close>

theorem createSwapChain_format_fixed:
  "map requestedFormat (swapchainRequests
     (fst (createSwapChain e oldSwapChain device physicalDevice surface' extent deviceIndices)))
   = [\<lparr>format = VK_FORMAT_B8G8R8A8_UNORM, colorSpace = VK_COLOR_SPACE_SRGB_NONLINEAR_KHR\<rparr>]"
  by (simp add: createSwapChain_requests createSwapChain_createInfo_def Let_def
      requestedFormat_def)

text \<open>The pair requested on a device whose only reported format is R8G8B8A8 (37).\<close>

theorem createSwapChain_format_fixed_witness:
  "map requestedFormat (swapchainRequests
     (fst (createSwapChain (env_of []) 0 5 1 3 extent0 (indices True 0 True 1))))
   = [\<lparr>format = 44, colorSpace = 0\<rparr>]
   \<and> map format (vkGetPhysicalDeviceSurfaceFormatsKHR (env_of []) 1 3) = [37]"
  using createSwapChain_format_fixed [of "env_of []" 0 5 1 3 extent0 "indices True 0 True 1"]
  by (simp add: env_of_def VK_FORMAT_B8G8R8A8_UNORM_def VK_FORMAT_R8G8B8A8_UNORM_def
      VK_COLOR_SPACE_SRGB_NONLINEAR_KHR_def)





text \<open>
  The selection loop keeps the last device for which the query answers an index, or the
  device selected before the loop if there is none.
\<close>

lemma createPhysicalDevice_loop_last:
  "\<forall>d \<in> set arr. malloc e (length (vkGetPhysicalDeviceQueueFamilyProperties e d))
   \<Longrightarrow> createPhysicalDevice_loop e arr selectedDevice
       = ([], Returned (if filter (queryFinds e) arr = [] then selectedDevice
                        else last (filter (queryFinds e) arr)))"
proof (induction arr arbitrary: selectedDevice)
  case Nil
  then show ?case by simp
next
  case (Cons d arr)
  from Cons.prems have m: "malloc e (length (vkGetPhysicalDeviceQueueFamilyProperties e d))"
    and rest: "\<forall>d \<in> set arr. malloc e (length (vkGetPhysicalDeviceQueueFamilyProperties e d))"
    by simp_all
  define ret where "ret = getDeviceQueueIndex_loop (vkGetPhysicalDeviceQueueFamilyProperties e d)
      (VK_QUEUE_GRAPHICS_BIT OR VK_QUEUE_COMPUTE_BIT) 0"
  from m have q: "getDeviceQueueIndex e d (VK_QUEUE_GRAPHICS_BIT OR VK_QUEUE_COMPUTE_BIT)
      = ([], Returned ret)"
    by (simp add: getDeviceQueueIndex_def Let_def ret_def)
  then have f: "queryFinds e d = (ret \<noteq> - 1)"
    by (simp add: queryFinds_def)
  show ?case
    using q f Cons.IH [OF rest] by simp
qed

text \<open>
  C10, as amended: when the enumeration succeeds, the allocations succeed, the enumerated
  handles are not null and the query of line 170 answers an index (a value other than -1)
  for at least one enumerated device, createPhysicalDevice returns the last device in
  enumeration order for which that query answers an index.
\<close>

theorem createPhysicalDevice_selects_last:
  assumes "fst (vkEnumeratePhysicalDevices e instance) = VK_SUCCESS"
    and "malloc e (length (snd (vkEnumeratePhysicalDevices e instance)))"
    and "\<forall>d \<in> set (snd (vkEnumeratePhysicalDevices e instance)).
           d \<noteq> VK_NULL_HANDLE \<and> malloc e (length (vkGetPhysicalDeviceQueueFamilyProperties e d))"
    and "suitableDevices e instance \<noteq> []"
  shows "createPhysicalDevice e instance = ([], Returned (last (suitableDevices e instance)))"
proof -
  let ?arr = "snd (vkEnumeratePhysicalDevices e instance)"
  from assms(4) have ne: "filter (queryFinds e) ?arr \<noteq> []"
    by (simp add: suitableDevices_def)
  then have arr_ne: "?arr \<noteq> []" by auto
  from assms(3) have loop: "createPhysicalDevice_loop e ?arr VK_NULL_HANDLE
      = ([], Returned (last (filter (queryFinds e) ?arr)))"
    using createPhysicalDevice_loop_last [of ?arr e VK_NULL_HANDLE] ne by simp
  from ne have "last (filter (queryFinds e) ?arr) \<in> set (filter (queryFinds e) ?arr)"
    by (rule last_in_set)
  then have "last (filter (queryFinds e) ?arr) \<in> set ?arr" by simp
  with assms(3) have nn: "last (filter (queryFinds e) ?arr) \<noteq> VK_NULL_HANDLE" by blast
  show ?thesis
    using assms(1,2) arr_ne loop nn
    by (simp add: createPhysicalDevice_def Let_def suitableDevices_def)
qed

text \<open>Two devices with one graphics and compute family each: the second is returned.\<close>

theorem createPhysicalDevice_selects_last_witness:
  "suitableDevices env_two_alike 7 = [1, 2]
   \<and> createPhysicalDevice env_two_alike 7 = ([], Returned 2)"
proof -
  have s: "suitableDevices env_two_alike 7 = [1, 2]"
    by (simp add: suitableDevices_def queryFinds_def getDeviceQueueIndex_def Let_def
        env_two_alike_def env_of_def family_def getDeviceQueueIndex_loop.simps to_int32_def
        VK_QUEUE_GRAPHICS_BIT_def VK_QUEUE_COMPUTE_BIT_def)
  have "createPhysicalDevice env_two_alike 7 = ([], Returned (last (suitableDevices env_two_alike 7)))"
    by (rule createPhysicalDevice_selects_last)
      (simp_all add: s, simp_all add: env_two_alike_def env_of_def VK_NULL_HANDLE_def)
  with s show ?thesis by simp
qed

text \<open>
  C10. The claim: of the enumerated devices that have a queue family supporting graphics
  and compute, createPhysicalDevice returns the last. With two such devices, of which the
  second has a transfer-only family 0 before its graphics and compute family, the last
  such device is device 2 and the code returns device 1.
\<close>

theorem createPhysicalDevice_last_counterexample:
  "spec_suitableDevices env_two_devices 7 = [1, 2]
   \<and> last (spec_suitableDevices env_two_devices 7) = 2
   \<and> createPhysicalDevice env_two_devices 7 = ([], Returned 1)"
  by (simp add: spec_suitableDevices_def spec_supportsGraphicsCompute_def
      createPhysicalDevice_def getDeviceQueueIndex_def Let_def
      env_two_devices_def env_of_def families_two_devices_def family_def
      getDeviceQueueIndex_loop.simps to_int32_def VK_SUCCESS_def VK_NULL_HANDLE_def
      VK_QUEUE_GRAPHICS_BIT_def VK_QUEUE_COMPUTE_BIT_def VK_QUEUE_TRANSFER_BIT_def)

text \<open>
  A loop whose condition first fails at its n-th test ends, given that many tests, after
  n iterations.
\<close>

lemma main_loop_runs:
  "shouldClose (k + n) \<Longrightarrow> \<forall>j<n. \<not> shouldClose (k + j) \<Longrightarrow> n < fuel
   \<Longrightarrow> main_loop fuel shouldClose k
       = Some (concat (replicate n main_loop_iteration) @ [Call ''glfwWindowShouldClose'' [''pWindow'']])"
proof (induction n arbitrary: fuel k)
  case 0
  then obtain fuel' where "fuel = Suc fuel'" by (cases fuel) auto
  with 0 show ?case by simp
next
  case (Suc n)
  then obtain fuel' where fuel: "fuel = Suc fuel'" by (cases fuel) auto
  from Suc.prems(2) have open_now: "\<not> shouldClose k" by (metis add_0_right zero_less_Suc)
  have "main_loop fuel' shouldClose (Suc k)
      = Some (concat (replicate n main_loop_iteration) @ [Call ''glfwWindowShouldClose'' [''pWindow'']])"
  proof (rule Suc.IH)
    show "shouldClose (Suc k + n)" using Suc.prems(1) by simp
    show "\<forall>j<n. \<not> shouldClose (Suc k + j)"
    proof (intro allI impI)
      fix j assume "j < n"
      then have "Suc j < Suc n" by simp
      with Suc.prems(2) have "\<not> shouldClose (k + Suc j)" by blast
      then show "\<not> shouldClose (Suc k + j)" by simp
    qed
    show "n < fuel'" using Suc.prems(3) fuel by simp
  qed
  with open_now fuel show ?case by (simp add: main_loop_iteration_def)
qed

lemma calls_of_append: "calls_of f (s @ t) = calls_of f s + calls_of f t"
  by (induction s) (simp_all add: calls_of_def)

lemma calls_of_iterations:
  "calls_of f (concat (replicate n t)) = n * calls_of f t"
  by (induction n) (simp_all add: calls_of_append, simp add: calls_of_def)

text \<open>
  The trace of a loop that ends after n iterations: n times the test and the poll, then
  the last test; it holds n calls of \<^verbatim>\<open>glfwPollEvents\<close> and none of
  \<^verbatim>\<open>drawFrame\<close>.
\<close>

lemma main_loop_iterations:
  "shouldClose (k + n) \<and> (\<forall>j<n. \<not> shouldClose (k + j)) \<and> n < fuel \<longrightarrow>
     main_loop fuel shouldClose k
       = Some (concat (replicate n main_loop_iteration) @ [Call ''glfwWindowShouldClose'' [''pWindow'']])
     \<and> map call_name main_loop_iteration = [''glfwWindowShouldClose'', ''glfwPollEvents'']
     \<and> calls_of ''glfwPollEvents''
          (concat (replicate n main_loop_iteration) @ [Call ''glfwWindowShouldClose'' [''pWindow'']]) = n
     \<and> calls_of ''drawFrame''
          (concat (replicate n main_loop_iteration) @ [Call ''glfwWindowShouldClose'' [''pWindow'']]) = 0"
proof (intro impI)
  assume a: "shouldClose (k + n) \<and> (\<forall>j<n. \<not> shouldClose (k + j)) \<and> n < fuel"
  then have "main_loop fuel shouldClose k
       = Some (concat (replicate n main_loop_iteration) @ [Call ''glfwWindowShouldClose'' [''pWindow'']])"
    by (intro main_loop_runs) simp_all
  moreover have "calls_of ''glfwPollEvents'' main_loop_iteration = 1"
    and "calls_of ''drawFrame'' main_loop_iteration = 0"
    by (simp_all add: calls_of_def main_loop_iteration_def)
  moreover have "calls_of ''glfwPollEvents'' [Call ''glfwWindowShouldClose'' [''pWindow'']] = 0"
    and "calls_of ''drawFrame'' [Call ''glfwWindowShouldClose'' [''pWindow'']] = 0"
    by (simp_all add: calls_of_def)
  ultimately show "main_loop fuel shouldClose k
       = Some (concat (replicate n main_loop_iteration) @ [Call ''glfwWindowShouldClose'' [''pWindow'']])
     \<and> map call_name main_loop_iteration = [''glfwWindowShouldClose'', ''glfwPollEvents'']
     \<and> calls_of ''glfwPollEvents''
          (concat (replicate n main_loop_iteration) @ [Call ''glfwWindowShouldClose'' [''pWindow'']]) = n
     \<and> calls_of ''drawFrame''
          (concat (replicate n main_loop_iteration) @ [Call ''glfwWindowShouldClose'' [''pWindow'']]) = 0"
    by (simp add: calls_of_append calls_of_iterations main_loop_iteration_def)
qed

text \<open>No run of the loop, and no part of main, calls \<^verbatim>\<open>drawFrame\<close>.\<close>

lemma main_loop_no_draw:
  "main_loop fuel shouldClose k = Some t \<Longrightarrow> calls_of ''drawFrame'' t = 0"
proof (induction fuel arbitrary: k t)
  case 0
  then show ?case by simp
next
  case (Suc fuel)
  show ?case
  proof (cases "shouldClose k")
    case True
    with Suc.prems show ?thesis by (auto simp: calls_of_def)
  next
    case False
    with Suc.prems obtain t' where t': "main_loop fuel shouldClose (Suc k) = Some t'"
      and t: "t = Call ''glfwWindowShouldClose'' [''pWindow''] # Call ''glfwPollEvents'' [] # t'"
      by auto
    from Suc.IH [OF t'] have "calls_of ''drawFrame'' t' = 0" .
    with t show ?thesis by (simp add: calls_of_def)
  qed
qed

lemma main_phases_no_draw:
  "calls_of ''drawFrame'' main_init = 0"
  "calls_of ''drawFrame'' main_instance = 0"
  "calls_of ''drawFrame'' main_build = 0"
  "calls_of ''drawFrame'' main_cleanup = 0"
  by (simp_all add: calls_of_def main_init_def main_instance_def main_build_def main_cleanup_def)

text \<open>Whichever way main ends, its trace holds no call of \<^verbatim>\<open>drawFrame\<close>.\<close>

lemma main_no_draw:
  "main fuel env = Some (t, x) \<Longrightarrow> calls_of ''drawFrame'' t = 0"
proof -
  assume m: "main fuel env = Some (t, x)"
  show ?thesis
  proof (cases "\<not> mallocExtensionNames env")
    case True
    with m have "t = main_init @
        [Call ''errLog'' [''FATAL'', ''failed to allocate memory: %s'', ''strerror(errno)''],
         Call ''panic'' []]"
      by (simp add: main_def)
    then show ?thesis
      by (simp add: calls_of_append main_phases_no_draw) (simp add: calls_of_def)
  next
    case False
    note ok = this
    show ?thesis
    proof (cases "ret1 env \<noteq> word_of_int VK_SUCCESS \<or> ret2 env \<noteq> word_of_int VK_SUCCESS
                \<or> ret3 env \<noteq> word_of_int VK_SUCCESS")
      case True
      with ok m have "t = main_init @ main_instance @
          [Call ''errLog'' [''FATAL'', ''unable to acquire indices\<newline>''], Call ''panic'' []]"
        by (simp add: main_def)
      then show ?thesis
        by (simp add: calls_of_append main_phases_no_draw) (simp add: calls_of_def)
    next
      case False
      with ok m obtain t' where l: "main_loop fuel (glfwWindowShouldClose env) 0 = Some t'"
        and t: "t = main_init @ main_instance @ main_build @ t' @ main_cleanup"
        by (auto simp: main_def split: option.splits)
      from main_loop_no_draw [OF l] t show ?thesis
        by (simp add: calls_of_append main_phases_no_draw)
    qed
  qed
qed

text \<open>
  When the setup of main succeeds and the window first reports closing at its n-th test,
  main runs the loop for n iterations between the setup and the cleanup and returns.
\<close>

lemma main_runs:
  assumes "mallocExtensionNames env"
    and "ret1 env = word_of_int VK_SUCCESS" and "ret2 env = word_of_int VK_SUCCESS"
    and "ret3 env = word_of_int VK_SUCCESS"
    and "glfwWindowShouldClose env n" and "\<forall>j<n. \<not> glfwWindowShouldClose env j"
    and "n < fuel"
  shows "main fuel env
     = Some (main_init @ main_instance @ main_build
             @ (concat (replicate n main_loop_iteration)
                @ [Call ''glfwWindowShouldClose'' [''pWindow'']])
             @ main_cleanup,
             Returned EXIT_SUCCESS)"
proof -
  have "main_loop fuel (glfwWindowShouldClose env) 0
      = Some (concat (replicate n main_loop_iteration) @ [Call ''glfwWindowShouldClose'' [''pWindow'']])"
    using assms(5,6,7) by (intro main_loop_runs) simp_all
  with assms(1-4) show ?thesis by (simp add: main_def)
qed

text \<open>
  C8, as amended: every iteration of the outer loop of main tests
  \<^verbatim>\<open>glfwWindowShouldClose\<close> and calls \<^verbatim>\<open>glfwPollEvents\<close> exactly once, and calls
  nothing else; no draw operation is invoked, and main never calls \<^verbatim>\<open>drawFrame\<close>.
  A loop whose window first reports closing at the n-th test ends after n iterations with
  n calls of \<^verbatim>\<open>glfwPollEvents\<close> and no call of \<^verbatim>\<open>drawFrame\<close>; a run of main
  whose setup succeeds is the setup, these iterations and the cleanup; and the trace of
  every run of main that ends, however it ends, holds no call of \<^verbatim>\<open>drawFrame\<close>.
\<close>

theorem main_loop_polls_once_per_iteration:
  "(shouldClose (k + n) \<and> (\<forall>j<n. \<not> shouldClose (k + j)) \<and> n < fuel \<longrightarrow>
     main_loop fuel shouldClose k
       = Some (concat (replicate n main_loop_iteration) @ [Call ''glfwWindowShouldClose'' [''pWindow'']])
     \<and> map call_name main_loop_iteration = [''glfwWindowShouldClose'', ''glfwPollEvents'']
     \<and> calls_of ''glfwPollEvents''
          (concat (replicate n main_loop_iteration) @ [Call ''glfwWindowShouldClose'' [''pWindow'']]) = n
     \<and> calls_of ''drawFrame''
          (concat (replicate n main_loop_iteration) @ [Call ''glfwWindowShouldClose'' [''pWindow'']]) = 0)
   \<and> (mallocExtensionNames env \<and> ret1 env = word_of_int VK_SUCCESS
        \<and> ret2 env = word_of_int VK_SUCCESS \<and> ret3 env = word_of_int VK_SUCCESS
        \<and> glfwWindowShouldClose env m \<and> (\<forall>j<m. \<not> glfwWindowShouldClose env j) \<and> m < fuel' \<longrightarrow>
      main fuel' env
        = Some (main_init @ main_instance @ main_build
                @ (concat (replicate m main_loop_iteration)
                   @ [Call ''glfwWindowShouldClose'' [''pWindow'']])
                @ main_cleanup,
                Returned EXIT_SUCCESS))
   \<and> (main fuel'' env' = Some (t, x) \<longrightarrow> calls_of ''drawFrame'' t = 0)"
proof (intro conjI)
  show "shouldClose (k + n) \<and> (\<forall>j<n. \<not> shouldClose (k + j)) \<and> n < fuel \<longrightarrow>
     main_loop fuel shouldClose k
       = Some (concat (replicate n main_loop_iteration) @ [Call ''glfwWindowShouldClose'' [''pWindow'']])
     \<and> map call_name main_loop_iteration = [''glfwWindowShouldClose'', ''glfwPollEvents'']
     \<and> calls_of ''glfwPollEvents''
          (concat (replicate n main_loop_iteration) @ [Call ''glfwWindowShouldClose'' [''pWindow'']]) = n
     \<and> calls_of ''drawFrame''
          (concat (replicate n main_loop_iteration) @ [Call ''glfwWindowShouldClose'' [''pWindow'']]) = 0"
    by (rule main_loop_iterations)
  show "mallocExtensionNames env \<and> ret1 env = word_of_int VK_SUCCESS
        \<and> ret2 env = word_of_int VK_SUCCESS \<and> ret3 env = word_of_int VK_SUCCESS
        \<and> glfwWindowShouldClose env m \<and> (\<forall>j<m. \<not> glfwWindowShouldClose env j) \<and> m < fuel' \<longrightarrow>
      main fuel' env
        = Some (main_init @ main_instance @ main_build
                @ (concat (replicate m main_loop_iteration)
                   @ [Call ''glfwWindowShouldClose'' [''pWindow'']])
                @ main_cleanup,
                Returned EXIT_SUCCESS)"
    using main_runs [of env m fuel'] by blast
  show "main fuel'' env' = Some (t, x) \<longrightarrow> calls_of ''drawFrame'' t = 0"
    using main_no_draw [of fuel'' env' t x] by blast
qed

text \<open>
  A window that closes at its third test: two iterations of the loop, and the run of main
  around them, which calls \<^verbatim>\<open>drawFrame\<close> nowhere.
\<close>

theorem main_loop_polls_once_per_iteration_witness:
  "main_loop 5 (closes_after 2) 0
     = Some [Call ''glfwWindowShouldClose'' [''pWindow''], Call ''glfwPollEvents'' [],
             Call ''glfwWindowShouldClose'' [''pWindow''], Call ''glfwPollEvents'' [],
             Call ''glfwWindowShouldClose'' [''pWindow'']]
   \<and> main 5 (mainEnv_closes_after 2)
     = Some (main_init @ main_instance @ main_build
             @ [Call ''glfwWindowShouldClose'' [''pWindow''], Call ''glfwPollEvents'' [],
                Call ''glfwWindowShouldClose'' [''pWindow''], Call ''glfwPollEvents'' [],
                Call ''glfwWindowShouldClose'' [''pWindow'']]
             @ main_cleanup,
             Returned 0)
   \<and> calls_of ''drawFrame''
        (main_init @ main_instance @ main_build
         @ [Call ''glfwWindowShouldClose'' [''pWindow''], Call ''glfwPollEvents'' [],
            Call ''glfwWindowShouldClose'' [''pWindow''], Call ''glfwPollEvents'' [],
            Call ''glfwWindowShouldClose'' [''pWindow'']]
         @ main_cleanup) = 0"
proof -
  let ?t = "main_init @ main_instance @ main_build
         @ [Call ''glfwWindowShouldClose'' [''pWindow''], Call ''glfwPollEvents'' [],
            Call ''glfwWindowShouldClose'' [''pWindow''], Call ''glfwPollEvents'' [],
            Call ''glfwWindowShouldClose'' [''pWindow'']]
         @ main_cleanup"
  note inst = main_loop_polls_once_per_iteration
    [of "closes_after 2" 0 2 5 "mainEnv_closes_after 2" 2 5 5 "mainEnv_closes_after 2"
        ?t "Returned 0"]
  have two: "concat (replicate 2 main_loop_iteration)
      = [Call ''glfwWindowShouldClose'' [''pWindow''], Call ''glfwPollEvents'' [],
         Call ''glfwWindowShouldClose'' [''pWindow''], Call ''glfwPollEvents'' []]"
    by (simp add: main_loop_iteration_def numeral_2_eq_2)
  have loop_hyp: "closes_after 2 (0 + 2) \<and> (\<forall>j<2. \<not> closes_after 2 (0 + j)) \<and> (2::nat) < 5"
    by (simp add: closes_after_def)
  have main_hyp: "mallocExtensionNames (mainEnv_closes_after 2)
      \<and> ret1 (mainEnv_closes_after 2) = word_of_int VK_SUCCESS
      \<and> ret2 (mainEnv_closes_after 2) = word_of_int VK_SUCCESS
      \<and> ret3 (mainEnv_closes_after 2) = word_of_int VK_SUCCESS
      \<and> glfwWindowShouldClose (mainEnv_closes_after 2) 2
      \<and> (\<forall>j<2. \<not> glfwWindowShouldClose (mainEnv_closes_after 2) j) \<and> (2::nat) < 5"
    by (simp add: mainEnv_closes_after_def closes_after_def VK_SUCCESS_def)
  from inst [THEN conjunct1, THEN mp, OF loop_hyp]
  have l: "main_loop 5 (closes_after 2) 0
      = Some (concat (replicate 2 main_loop_iteration) @ [Call ''glfwWindowShouldClose'' [''pWindow'']])"
    by (rule conjunct1)
  from inst [THEN conjunct2, THEN conjunct1, THEN mp, OF main_hyp]
  have m: "main 5 (mainEnv_closes_after 2) = Some (?t, Returned 0)"
    by (simp add: two EXIT_SUCCESS_def)
  from inst [THEN conjunct2, THEN conjunct2, THEN mp, OF m]
  have "calls_of ''drawFrame'' ?t = 0" .
  with l m show ?thesis by (simp add: two)
qed

text \<open>
  C8. The claim: every iteration of the outer loop invokes the draw operation exactly
  once. A run of main whose loop makes one iteration calls \<^verbatim>\<open>glfwPollEvents\<close> once
  and \<^verbatim>\<open>drawFrame\<close> not at all.
\<close>

theorem main_loop_draw_counterexample:
  "calls_in_run ''glfwPollEvents'' (main 2 (mainEnv_closes_after 1)) = Some 1
   \<and> calls_in_run ''drawFrame'' (main 2 (mainEnv_closes_after 1)) = Some 0"
  by (simp add: calls_in_run_def calls_of_def main_def mainEnv_closes_after_def closes_after_def
      main_init_def main_instance_def main_build_def main_cleanup_def VK_SUCCESS_def
      numeral_2_eq_2)

text \<open>
  C9. The claim: the cleanup of main destroys the surface after its dependents and before
  it destroys the instance. In a run of main that reaches the cleanup, the surface is
  created once and \<^verbatim>\<open>delete_Surface\<close> is never called, while the instance is
  destroyed; the cleanup is the listed sequence of calls.
\<close>

theorem main_cleanup_leaves_surface:
  "calls_in_run ''createSurface'' (main 1 (mainEnv_closes_after 0)) = Some 1
   \<and> calls_in_run ''delete_Surface'' (main 1 (mainEnv_closes_after 0)) = Some 0
   \<and> calls_in_run ''delete_Instance'' (main 1 (mainEnv_closes_after 0)) = Some 1
   \<and> map call_name main_cleanup
       = [''delete_Semaphore'', ''delete_Semaphore'', ''delete_GraphicsCommandBuffers'',
          ''delete_CommandPool'', ''delete_SwapChainFramebuffers'', ''delete_Pipeline'',
          ''delete_PipelineLayout'', ''delete_RenderPass'', ''delete_SwapChainImageViews'',
          ''delete_SwapChainImages'', ''delete_SwapChain'', ''delete_Device'',
          ''delete_DebugCallback'', ''delete_Instance'', ''free'', ''glfwTerminate'']"
  by (simp add: calls_in_run_def calls_of_def main_def mainEnv_closes_after_def closes_after_def
      main_init_def main_instance_def main_build_def main_cleanup_def VK_SUCCESS_def)

text \<open>Where the cleanup destroys the instance, and that it does not destroy the surface.\<close>

theorem main_cleanup_leaves_surface_witness:
  "calls_in_run ''delete_Surface'' (main 1 (mainEnv_closes_after 0)) = Some 0
   \<and> first_call ''delete_Instance'' main_cleanup = Some 13
   \<and> first_call ''delete_Surface'' main_cleanup = None"
  using main_cleanup_leaves_surface by (simp add: main_cleanup_def)

end
